theory Spec2Isabelle
  imports Complex_Main
begin

section \<open>Data model (types.ts)\<close>

text \<open>
  The interfaces of the client's type declarations, one record each. A JavaScript
  \<open>number\<close> that holds an identifier, a count, a page number or a timestamp is an
  \<open>int\<close>; one that holds a measurement (similarity score, storage size, scroll
  geometry) is a \<open>real\<close>. A JavaScript string is a \<open>string\<close>.
\<close>

record entry =
  id :: int
  app :: string
  title :: string
  text_body :: string
  timestamp :: int
  screenshot_url :: string
  formatted_time :: string
  relative_time :: string
  tags :: "string list"

record search_result = entry +
  similarity_score :: real

record app_stats =
  name :: string
  count :: int
  category :: "string option"

record hourly_activity =
  hour :: int
  hcount :: int

datatype bucket = Active | Paused | Inactive

record paginated_response =
  pr_entries :: "entry list"
  pr_total :: int
  pr_page :: int
  pr_limit :: int
  has_more :: bool

record search_response =
  sr_query :: string
  sr_results :: "search_result list"
  sr_total :: int

record status_response =
  status_field :: bucket
  recording :: bool
  paused :: bool
  last_capture :: "int option"
  version :: string

section \<open>Transport outcomes (api/client.ts)\<close>

text \<open>
  \<open>fetchJson\<close> either resolves with the parsed body or rejects. What a \<open>catch\<close>
  clause receives is any JavaScript value: an \<open>Error\<close> object with its message
  (what \<open>fetch\<close>, \<open>response.json()\<close> and the \<open>throw new Error\<close> of
  \<open>fetchJson\<close> produce) or some other value. A settled request is a value of
  \<open>thrown + 'a\<close>, with \<open>Inl\<close> for the rejection.
\<close>

datatype js_error = Error string

datatype thrown = Thrown_Error js_error | Thrown_Other

text \<open>
  The effects a handler performs outside its component: a call of \<open>getEntries\<close>
  (with \<open>page\<close> and \<open>limit\<close>, as the timeline calls it, or with an options object,
  as the entries hook does), of \<open>searchEntries\<close> (query and limit), of \<open>getStatus\<close>,
  or of \<open>console.error\<close> (its two arguments).
\<close>

record entries_options =
  opt_page :: "int option"
  opt_limit :: "int option"
  opt_app :: "string option"

datatype effect =
    Get_Entries int int
  | Get_Entries_With entries_options
  | Get_Search string int
  | Get_Status
  | Console_Error string thrown

section \<open>Timeline feed (pages/TimelinePage.tsx)\<close>

text \<open>
  The five state cells of \<open>TimelinePage\<close>. An asynchronous function is split at
  its \<open>await\<close>: the part that runs when it is called (\<open>_begin\<close>, which issues the
  request) and the part that runs when the request settles (\<open>_settle\<close>). Each part
  returns the new cells and the effects it performed outside the component, in order:
  requests sent and console output.

  \<open>fetchEntries\<close> is created once (\<open>useCallback\<close> with no dependencies) and only
  calls setters, so it reads nothing of a render; its append is the functional update
  \<open>setEntries((prev) => [...prev, ...data.entries])\<close>, which reads the cell as it is
  when the update is applied.
\<close>

record feed =
  entries :: "entry list"
  loading :: bool
  page :: int
  hasMore :: bool
  loadingMore :: bool

definition initial_feed :: feed where
  "initial_feed =
     \<lparr>entries = [], loading = True, page = 1, hasMore = False, loadingMore = False\<rparr>"

definition fetchEntries_begin :: "int \<Rightarrow> feed \<Rightarrow> feed \<times> effect list" where
  "fetchEntries_begin pageNum s =
     ((if pageNum = 1 then s\<lparr>loading := True\<rparr> else s\<lparr>loadingMore := True\<rparr>),
      [Get_Entries pageNum 20])"

definition fetchEntries_finally :: "feed \<Rightarrow> feed" where
  "fetchEntries_finally s = s\<lparr>loading := False, loadingMore := False\<rparr>"

definition fetchEntries_settle ::
  "bool \<Rightarrow> thrown + paginated_response \<Rightarrow> feed \<Rightarrow> feed \<times> effect list" where
  "fetchEntries_settle append_flag r s =
     (case r of
        Inr data \<Rightarrow>
          (fetchEntries_finally
             ((if append_flag then s\<lparr>entries := entries s @ pr_entries data\<rparr>
               else s\<lparr>entries := pr_entries data\<rparr>)
              \<lparr>hasMore := has_more data\<rparr>),
           [])
      | Inl err \<Rightarrow>
          (fetchEntries_finally s, [Console_Error ''Failed to fetch entries:'' err]))"

text \<open>The mount effect: \<open>fetchEntries(1)\<close>, with \<open>append\<close> at its default.\<close>

definition load_begin :: "feed \<Rightarrow> feed \<times> effect list" where
  "load_begin s = fetchEntries_begin 1 s"

definition load_settle :: "thrown + paginated_response \<Rightarrow> feed \<Rightarrow> feed \<times> effect list" where
  "load_settle r s = fetchEntries_settle False r s"

definition load_run :: "thrown + paginated_response \<Rightarrow> feed \<Rightarrow> feed \<times> effect list" where
  "load_run r s =
     (let (s1, fx1) = load_begin s;
          (s2, fx2) = load_settle r s1
      in (s2, fx1 @ fx2))"

text \<open>
  \<open>loadMore\<close> and the scroll listener are closures: what they read as
  \<open>loadingMore\<close>, \<open>hasMore\<close> and \<open>page\<close> are the constants of the render that
  created them (\<open>closure\<close>), while what they write goes to the cells. The button's
  \<open>loadMore\<close> is that of the latest render. The scroll listener, and the
  \<open>loadMore\<close> it calls, are those of the render whose effect, keyed on
  \<open>[loadingMore, hasMore, page]\<close>, last ran.
\<close>

record closure =
  k_loadingMore :: bool
  k_hasMore :: bool
  k_page :: int

definition capture :: "feed \<Rightarrow> closure" where
  "capture s = \<lparr>k_loadingMore = loadingMore s, k_hasMore = hasMore s, k_page = page s\<rparr>"

definition loadMore :: "closure \<Rightarrow> feed \<Rightarrow> feed \<times> effect list" where
  "loadMore k s =
     (if \<not> k_loadingMore k \<and> k_hasMore k
      then (let nextPage = k_page k + 1
            in fetchEntries_begin nextPage (s\<lparr>page := nextPage\<rparr>))
      else (s, []))"

definition loadMore_settle :: "thrown + paginated_response \<Rightarrow> feed \<Rightarrow> feed \<times> effect list" where
  "loadMore_settle r s = fetchEntries_settle True r s"

text \<open>
  The scroll listener. The container found by \<open>document.querySelector\<close> is
  \<open>None\<close> when there is none, and otherwise its \<open>scrollTop\<close>, \<open>scrollHeight\<close> and
  \<open>clientHeight\<close>.
\<close>

record scroll_metrics =
  scrollTop :: real
  scrollHeight :: real
  clientHeight :: real

definition handleScroll ::
  "scroll_metrics option \<Rightarrow> closure \<Rightarrow> feed \<Rightarrow> feed \<times> effect list" where
  "handleScroll c k s =
     (case c of
        None \<Rightarrow> (s, [])
      | Some m \<Rightarrow>
          (if scrollHeight m - scrollTop m - clientHeight m < 200
              \<and> \<not> k_loadingMore k \<and> k_hasMore k
           then loadMore k s
           else (s, [])))"

text \<open>
  A mounted timeline: the cells as last written, the constants of the latest render
  (which the view shows and the button's \<open>loadMore\<close> closes over), and the constants
  the registered scroll listener closes over. Its events: the fallback button is
  clicked, the container scrolls, React renders (the new constants are the cells),
  React runs the effects of the latest render (the listener is registered anew), the
  first load settles, a \<open>loadMore\<close> request settles. \<open>feed_run\<close> applies a sequence
  of events in order and collects the effects; nothing orders a render, an effect run
  or a settling relative to the triggers, so a run may fire a trigger from constants
  older than the cells.
\<close>

record timeline =
  cells :: feed
  rendered :: feed
  listener :: closure

definition current :: "feed \<Rightarrow> timeline" where
  "current s = \<lparr>cells = s, rendered = s, listener = capture s\<rparr>"

definition mount :: "timeline \<times> effect list" where
  "mount =
     (\<lparr>cells = fst (load_begin initial_feed), rendered = initial_feed,
       listener = capture initial_feed\<rparr>,
      snd (load_begin initial_feed))"

datatype feed_event =
    Click_Load_More
  | Scroll "scroll_metrics option"
  | Render
  | Run_Effects
  | Settle_Load "thrown + paginated_response"
  | Settle_More "thrown + paginated_response"

definition feed_step :: "feed_event \<Rightarrow> timeline \<Rightarrow> timeline \<times> effect list" where
  "feed_step e w =
     (case e of
        Click_Load_More \<Rightarrow>
          (w\<lparr>cells := fst (loadMore (capture (rendered w)) (cells w))\<rparr>,
           snd (loadMore (capture (rendered w)) (cells w)))
      | Scroll c \<Rightarrow>
          (w\<lparr>cells := fst (handleScroll c (listener w) (cells w))\<rparr>,
           snd (handleScroll c (listener w) (cells w)))
      | Render \<Rightarrow> (w\<lparr>rendered := cells w\<rparr>, [])
      | Run_Effects \<Rightarrow> (w\<lparr>listener := capture (rendered w)\<rparr>, [])
      | Settle_Load r \<Rightarrow>
          (w\<lparr>cells := fst (load_settle r (cells w))\<rparr>, snd (load_settle r (cells w)))
      | Settle_More r \<Rightarrow>
          (w\<lparr>cells := fst (loadMore_settle r (cells w))\<rparr>,
           snd (loadMore_settle r (cells w))))"

fun feed_run :: "feed_event list \<Rightarrow> timeline \<Rightarrow> timeline \<times> effect list" where
  "feed_run [] w = (w, [])"
| "feed_run (e # es) w =
     (let (w1, fx1) = feed_step e w;
          (w2, fx2) = feed_run es w1
      in (w2, fx1 @ fx2))"


subsection \<open>The entries hook (hooks/useEntries.ts)\<close>

text \<open>
  The hook form of the first load, which \<open>TimelinePage\<close> does not use: it calls
  \<open>getEntries(options)\<close> with the options it was given, keeps \<open>total\<close> and has an
  \<open>error\<close> cell, and has no \<open>loadMore\<close>.
\<close>

record entries_hook =
  ue_entries :: "entry list"
  ue_loading :: bool
  ue_error :: "js_error option"
  ue_total :: int
  ue_hasMore :: bool

definition initial_entries_hook :: entries_hook where
  "initial_entries_hook =
     \<lparr>ue_entries = [], ue_loading = True, ue_error = None, ue_total = 0, ue_hasMore = False\<rparr>"

definition useEntries_fetch_begin ::
  "entries_options \<Rightarrow> entries_hook \<Rightarrow> entries_hook \<times> effect list" where
  "useEntries_fetch_begin options h =
     (h\<lparr>ue_loading := True, ue_error := None\<rparr>, [Get_Entries_With options])"

definition useEntries_fetch_settle ::
  "thrown + paginated_response \<Rightarrow> entries_hook \<Rightarrow> entries_hook \<times> effect list" where
  "useEntries_fetch_settle r h =
     (case r of
        Inr data \<Rightarrow>
          (h\<lparr>ue_entries := pr_entries data, ue_total := pr_total data,
             ue_hasMore := has_more data, ue_loading := False\<rparr>, [])
      | Inl err \<Rightarrow>
          (h\<lparr>ue_error :=
               Some (case err of
                       Thrown_Error e \<Rightarrow> e
                     | Thrown_Other \<Rightarrow> Error ''Failed to fetch entries''),
             ue_loading := False\<rparr>,
           []))"

definition useEntries_fetch ::
  "entries_options \<Rightarrow> thrown + paginated_response \<Rightarrow> entries_hook
     \<Rightarrow> entries_hook \<times> effect list" where
  "useEntries_fetch options r h =
     (let (h1, fx1) = useEntries_fetch_begin options h;
          (h2, fx2) = useEntries_fetch_settle r h1
      in (h2, fx1 @ fx2))"

subsection \<open>What the timeline renders (TimelinePage.tsx, cards/CardGrid.tsx)\<close>

datatype grid_view = Skeleton | Empty_Message string | Cards "entry list"

definition card_grid :: "entry list \<Rightarrow> bool \<Rightarrow> string option \<Rightarrow> grid_view" where
  "card_grid es is_loading emptyMessage =
     (if is_loading then Skeleton
      else if length es = 0
      then Empty_Message
             (case emptyMessage of
                None \<Rightarrow> ''No entries found''
              | Some m \<Rightarrow> if m = [] then ''No entries found'' else m)
      else Cards es)"

record timeline_view =
  grid :: grid_view
  loading_more_indicator :: bool
  load_more_button :: bool

definition timeline_render :: "feed \<Rightarrow> timeline_view" where
  "timeline_render s =
     \<lparr>grid = card_grid (entries s) (loading s)
        (Some ''No observations yet. Start recording to see your activity here.''),
      loading_more_indicator = loadingMore s,
      load_more_button = (hasMore s \<and> \<not> loadingMore s)\<rparr>"

section \<open>Search (hooks/useSearch.ts)\<close>

text \<open>
  \<open>String.prototype.trim\<close> strips white space and line terminators from both ends.
  Among the characters a \<open>char\<close> can hold these are the code points 9 to 13, 32 and
  160.
\<close>

definition is_white_space :: "char \<Rightarrow> bool" where
  "is_white_space c = (of_char c \<in> set [9, 10, 11, 12, 13, 32, 160 :: nat])"

definition trim :: "string \<Rightarrow> string" where
  "trim s = rev (dropWhile is_white_space (rev (dropWhile is_white_space s)))"

record search_state =
  results :: "search_result list"
  search_loading :: bool
  search_error :: "js_error option"
  query :: string

definition initial_search :: search_state where
  "initial_search =
     \<lparr>results = [], search_loading = False, search_error = None, query = []\<rparr>"

definition search_begin ::
  "string \<Rightarrow> int \<Rightarrow> search_state \<Rightarrow> search_state \<times> effect list" where
  "search_begin searchQuery limit s =
     (if trim searchQuery = []
      then (s\<lparr>results := [], query := []\<rparr>, [])
      else (s\<lparr>search_loading := True, search_error := None, query := searchQuery\<rparr>,
            [Get_Search searchQuery limit]))"

definition search_settle ::
  "thrown + search_response \<Rightarrow> search_state \<Rightarrow> search_state \<times> effect list" where
  "search_settle r s =
     (case r of
        Inr data \<Rightarrow> (s\<lparr>results := sr_results data, search_loading := False\<rparr>, [])
      | Inl err \<Rightarrow>
          (s\<lparr>search_error :=
               Some (case err of
                       Thrown_Error e \<Rightarrow> e
                     | Thrown_Other \<Rightarrow> Error ''Search failed''),
             results := [],
             search_loading := False\<rparr>,
           []))"

text \<open>
  \<open>search\<close> and \<open>clear\<close> are created once (\<open>useCallback\<close> with no dependencies)
  and only call setters, so they read nothing of a render, and nothing in the hook
  keeps a second \<open>search\<close> from beginning while a request is pending or ties a
  settling request to the latest call. The hook's events: a call of \<open>search\<close> (the
  query and the limit, 20 by default), a call of \<open>clear\<close>, a request settling.
  \<open>search_run\<close> applies a sequence of them in order and collects the effects.
\<close>

definition clear :: "search_state \<Rightarrow> search_state \<times> effect list" where
  "clear s = (s\<lparr>results := [], query := [], search_error := None\<rparr>, [])"

datatype search_event =
    Search string int
  | Clear
  | Settled "thrown + search_response"

definition search_step :: "search_event \<Rightarrow> search_state \<Rightarrow> search_state \<times> effect list" where
  "search_step e s =
     (case e of
        Search q limit \<Rightarrow> search_begin q limit s
      | Clear \<Rightarrow> clear s
      | Settled r \<Rightarrow> search_settle r s)"

fun search_run :: "search_event list \<Rightarrow> search_state \<Rightarrow> search_state \<times> effect list" where
  "search_run [] s = (s, [])"
| "search_run (e # es) s =
     (let (s1, fx1) = search_step e s;
          (s2, fx2) = search_run es s1
      in (s2, fx1 @ fx2))"

section \<open>Recorder status (hooks/useStats.ts, components/layout/Header.tsx)\<close>

record status_state =
  status :: "status_response option"
  status_loading :: bool

definition initial_status :: status_state where
  "initial_status = \<lparr>status = None, status_loading = True\<rparr>"

definition fetchStatus_begin :: "status_state \<Rightarrow> status_state \<times> effect list" where
  "fetchStatus_begin s = (s, [Get_Status])"

definition fetchStatus_settle ::
  "thrown + status_response \<Rightarrow> status_state \<Rightarrow> status_state \<times> effect list" where
  "fetchStatus_settle r s =
     (case r of
        Inr data \<Rightarrow> (s\<lparr>status := Some data, status_loading := False\<rparr>, [])
      | Inl err \<Rightarrow> (s\<lparr>status_loading := False\<rparr>, []))"

definition fetchStatus ::
  "thrown + status_response \<Rightarrow> status_state \<Rightarrow> status_state \<times> effect list" where
  "fetchStatus r s =
     (let (s1, fx1) = fetchStatus_begin s;
          (s2, fx2) = fetchStatus_settle r s1
      in (s2, fx1 @ fx2))"

text \<open>
  The header's derivations from \<open>status\<close>. Optional chaining on \<open>null\<close> gives
  \<open>undefined\<close>, which is falsy; so is the empty string of \<open>version\<close>.
\<close>

definition status_bucket :: "status_response option \<Rightarrow> bucket" where
  "status_bucket st =
     (if (case st of None \<Rightarrow> False | Some d \<Rightarrow> recording d) then Active
      else if (case st of None \<Rightarrow> False | Some d \<Rightarrow> paused d) then Paused
      else Inactive)"

definition badge_text :: "status_response option \<Rightarrow> string" where
  "badge_text st =
     ''MCP v'' @ (case st of
                    None \<Rightarrow> ''1.0.0''
                  | Some d \<Rightarrow> if version d = [] then ''1.0.0'' else version d)"

record header_view =
  badge :: string
  indicator :: bucket

definition header_render :: "status_state \<Rightarrow> header_view" where
  "header_render s = \<lparr>badge = badge_text (status s), indicator = status_bucket (status s)\<rparr>"

section \<open>Detail modal (components/common/ScreenshotModal.tsx, cards/CardGrid.tsx)\<close>

text \<open>
  The part of the document the modal's effect writes: the inline \<open>overflow\<close> style of
  \<open>body\<close> and the \<open>keydown\<close> listeners registered on the document (their number).
  \<open>modal_effect\<close> is the body of the effect and \<open>modal_cleanup\<close> the function it
  returns, each for the value of \<open>isOpen\<close> the effect closed over. Removing a listener
  that was never added does nothing.
\<close>

record document =
  body_overflow :: string
  keydown_listeners :: nat

definition modal_effect :: "bool \<Rightarrow> document \<Rightarrow> document" where
  "modal_effect isOpen d =
     (if isOpen
      then (d\<lparr>keydown_listeners := keydown_listeners d + 1\<rparr>)\<lparr>body_overflow := ''hidden''\<rparr>
      else d)"

definition modal_cleanup :: "bool \<Rightarrow> document \<Rightarrow> document" where
  "modal_cleanup isOpen d =
     (d\<lparr>keydown_listeners :=
          (if isOpen then keydown_listeners d - 1 else keydown_listeners d)\<rparr>)
      \<lparr>body_overflow := ''unset''\<rparr>"

text \<open>
  \<open>CardGrid\<close> holds \<open>selectedEntry\<close> and renders the modal with
  \<open>isOpen = !!selectedEntry\<close> and a fresh \<open>onClose\<close> closure on every render, so
  each render of a mounted modal runs the previous effect's cleanup and then the effect
  again. Setting the state to the \<open>null\<close> it already holds renders nothing.
\<close>

record modal_world =
  selectedEntry :: "entry option"
  modal_mounted :: bool
  doc :: document

definition setSelectedEntry :: "entry option \<Rightarrow> modal_world \<Rightarrow> modal_world" where
  "setSelectedEntry v w =
     (if v = None \<and> selectedEntry w = None then w
      else if modal_mounted w
      then w\<lparr>selectedEntry := v,
             doc := modal_effect (v \<noteq> None) (modal_cleanup (selectedEntry w \<noteq> None) (doc w))\<rparr>
      else w\<lparr>selectedEntry := v\<rparr>)"

definition select :: "entry \<Rightarrow> modal_world \<Rightarrow> modal_world" where
  "select e w = setSelectedEntry (Some e) w"

definition onClose :: "modal_world \<Rightarrow> modal_world" where
  "onClose w = setSelectedEntry None w"

definition handleEscape :: "string \<Rightarrow> modal_world \<Rightarrow> modal_world" where
  "handleEscape key w = (if key = ''Escape'' then onClose w else w)"

definition unmount :: "modal_world \<Rightarrow> modal_world" where
  "unmount w =
     (if modal_mounted w
      then w\<lparr>modal_mounted := False, doc := modal_cleanup (selectedEntry w \<noteq> None) (doc w)\<rparr>
      else w)"

datatype exit_path = Close_Button | Backdrop_Click | Escape_Key | Teardown

definition dismiss :: "exit_path \<Rightarrow> modal_world \<Rightarrow> modal_world" where
  "dismiss p w =
     (case p of
        Close_Button \<Rightarrow> onClose w
      | Backdrop_Click \<Rightarrow> onClose w
      | Escape_Key \<Rightarrow> handleEscape ''Escape'' w
      | Teardown \<Rightarrow> unmount w)"

definition scroll_suppressed :: "document \<Rightarrow> bool" where
  "scroll_suppressed d = (body_overflow d = ''hidden'')"

section \<open>Derived chart values (pages/StatsPage.tsx)\<close>

text \<open>
  \<open>app_maxCount\<close> is the \<open>maxCount\<close> that \<open>StatsPage\<close> passes to every
  \<open>AppBar\<close>: \<open>stats.apps[0]?.count || 1\<close>. \<open>hourly_maxCount\<close> is the one
  \<open>HourlyActivityChart\<close> computes: \<open>Math.max(...data.map((d) => d.count), 1)\<close>.
\<close>

definition app_maxCount :: "app_stats list \<Rightarrow> int" where
  "app_maxCount apps =
     (case apps of
        [] \<Rightarrow> 1
      | a # _ \<Rightarrow> if count a = 0 then 1 else count a)"

definition appBar_percentage :: "int \<Rightarrow> int \<Rightarrow> real" where
  "appBar_percentage cnt maxCount = (real_of_int cnt / real_of_int maxCount) * 100"

definition top_apps :: "app_stats list \<Rightarrow> app_stats list" where
  "top_apps apps = take 10 apps"

definition hourly_maxCount :: "hourly_activity list \<Rightarrow> int" where
  "hourly_maxCount data = foldr max (map hcount data) 1"

definition hourly_count :: "hourly_activity list \<Rightarrow> int \<Rightarrow> int" where
  "hourly_count data h =
     (case find (\<lambda>d. hour d = h) data of None \<Rightarrow> 0 | Some d \<Rightarrow> hcount d)"

definition hourly_height :: "hourly_activity list \<Rightarrow> int \<Rightarrow> real" where
  "hourly_height data h =
     max ((real_of_int (hourly_count data h) / real_of_int (hourly_maxCount data)) * 100) 2"

definition isWorkHour :: "int \<Rightarrow> bool" where
  "isWorkHour h = (h \<ge> 9 \<and> h \<le> 17)"

section \<open>Sample values\<close>

definition entry_A :: entry where
  "entry_A = \<lparr>id = 1, app = ''Code'', title = ''main.ts'', text_body = ''const x'',
     timestamp = 1700000300, screenshot_url = ''/screenshots/1.png'',
     formatted_time = ''10:05'', relative_time = ''1h ago'', tags = [''development'']\<rparr>"

definition entry_B :: entry where
  "entry_B = \<lparr>id = 2, app = ''Chrome'', title = '''', text_body = '''',
     timestamp = 1700000200, screenshot_url = ''/screenshots/2.png'',
     formatted_time = ''10:03'', relative_time = ''1h ago'', tags = []\<rparr>"

definition entry_C :: entry where
  "entry_C = \<lparr>id = 3, app = ''Slack'', title = ''general'', text_body = ''hello'',
     timestamp = 1700000100, screenshot_url = ''/screenshots/3.png'',
     formatted_time = ''10:01'', relative_time = ''1h ago'', tags = [''communication'']\<rparr>"

definition feed_AB :: feed where
  "feed_AB = \<lparr>entries = [entry_A, entry_B], loading = False, page = 1, hasMore = True,
     loadingMore = False\<rparr>"

definition page_C :: paginated_response where
  "page_C = \<lparr>pr_entries = [entry_C], pr_total = 3, pr_page = 2, pr_limit = 20,
     has_more = False\<rparr>"

definition result_X :: search_result where
  "result_X = \<lparr>id = 7, app = ''Zoom'', title = ''Weekly meeting'', text_body = ''agenda'',
     timestamp = 1700000000, screenshot_url = ''/screenshots/7.png'',
     formatted_time = ''09:00'', relative_time = ''2h ago'', tags = [''communication''],
     similarity_score = 0.5\<rparr>"

definition search_failed_meeting :: search_state where
  "search_failed_meeting =
     \<lparr>results = [], search_loading = False,
      search_error = Some (Error ''HTTP error! status: 500''), query = ''meeting''\<rparr>"

definition world_suppressed :: modal_world where
  "world_suppressed =
     \<lparr>selectedEntry = None, modal_mounted = True,
      doc = \<lparr>body_overflow = ''hidden'', keydown_listeners = 0\<rparr>\<rparr>"

definition world_fresh :: modal_world where
  "world_fresh =
     \<lparr>selectedEntry = None, modal_mounted = True,
      doc = \<lparr>body_overflow = [], keydown_listeners = 0\<rparr>\<rparr>"

definition apps_unsorted :: "app_stats list" where
  "apps_unsorted =
     [\<lparr>name = ''Code'', count = 1, category = None\<rparr>,
      \<lparr>name = ''Chrome'', count = 5, category = Some ''browser''\<rparr>]"

definition apps_sorted :: "app_stats list" where
  "apps_sorted =
     [\<lparr>name = ''Chrome'', count = 5, category = Some ''browser''\<rparr>,
      \<lparr>name = ''Code'', count = 1, category = None\<rparr>]"

definition hours_sample :: "hourly_activity list" where
  "hours_sample = [\<lparr>hour = 9, hcount = 3\<rparr>, \<lparr>hour = 14, hcount = 7\<rparr>]"

definition page_AB :: paginated_response where
  "page_AB = \<lparr>pr_entries = [entry_A, entry_B], pr_total = 50, pr_page = 1, pr_limit = 20,
     has_more = True\<rparr>"

definition near_bottom :: scroll_metrics where
  "near_bottom = \<lparr>scrollTop = 900, scrollHeight = 1500, clientHeight = 600\<rparr>"

section \<open>Properties of the timeline feed\<close>

lemma loadMore_open:
  "\<not> k_loadingMore k \<Longrightarrow> k_hasMore k \<Longrightarrow>
     loadMore k s = fetchEntries_begin (k_page k + 1) (s\<lparr>page := k_page k + 1\<rparr>)"
  by (simp add: loadMore_def Let_def)

lemma loadMore_closed: "k_loadingMore k \<or> \<not> k_hasMore k \<Longrightarrow> loadMore k s = (s, [])"
  by (auto simp: loadMore_def)

lemma handleScroll_closed:
  "k_loadingMore k \<or> \<not> k_hasMore k \<Longrightarrow> handleScroll c k s = (s, [])"
  by (auto simp: handleScroll_def split: option.splits)

lemma fetchEntries_settle_failed:
  "fetchEntries_settle b (Inl err) s =
     (s\<lparr>loading := False, loadingMore := False\<rparr>,
      [Console_Error ''Failed to fetch entries:'' err])"
  by (simp add: fetchEntries_settle_def fetchEntries_finally_def)

text \<open>
  What holds of a completion whatever ran before it: a successful \<open>loadMore\<close>
  completion appends its page to the entries held when it is applied. And where the
  calling closure holds the cells' values, the call followed by its completion appends
  to the entries held before the call and leaves \<open>page\<close> one higher.
\<close>

lemma loadMore_settle_appends:
  "loadMore_settle (Inr d) s =
     (s\<lparr>entries := entries s @ pr_entries d, hasMore := has_more d,
        loading := False, loadingMore := False\<rparr>, [])"
  by (simp add: loadMore_settle_def fetchEntries_settle_def fetchEntries_finally_def)

lemma loadMore_current_appends:
  "\<not> loadingMore s \<Longrightarrow> hasMore s \<Longrightarrow>
     fst (loadMore_settle (Inr d) (fst (loadMore (capture s) s))) =
       s\<lparr>page := page s + 1, entries := entries s @ pr_entries d, hasMore := has_more d,
         loading := False, loadingMore := False\<rparr>"
  by (simp add: loadMore_def capture_def Let_def fetchEntries_begin_def loadMore_settle_appends)

lemma mount_then_first_page:
  "feed_run [Settle_Load (Inr page_AB), Render, Run_Effects] (fst mount) = (current feed_AB, [])"
  by (simp add: mount_def feed_step_def load_begin_def load_settle_def fetchEntries_begin_def
      fetchEntries_settle_def fetchEntries_finally_def initial_feed_def page_AB_def feed_AB_def
      current_def)

text \<open>
  C1 at a run the page admits. After the first load of entries A and B (page 1, more to
  come), two scroll events near the bottom arrive before React has rendered: both read
  the listener's constants (\<open>loadingMore\<close> false, \<open>page\<close> 1), both pass the guard and
  both request page 2. Each completion appends the page. For the second call the
  entries had length 2 before the call and its completion leaves 4 entries, A, B, C, C,
  not 3; and \<open>page\<close>, 2 before that call, is 2 after it.
\<close>

theorem stale_guard_duplicates_page:
  "cells (fst (feed_run [Scroll (Some near_bottom)] (current feed_AB))) =
     \<lparr>entries = [entry_A, entry_B], loading = False, page = 2, hasMore = True,
      loadingMore = True\<rparr>
   \<and> cells (fst (feed_run [Scroll (Some near_bottom), Scroll (Some near_bottom)]
        (current feed_AB))) =
       \<lparr>entries = [entry_A, entry_B], loading = False, page = 2, hasMore = True,
        loadingMore = True\<rparr>
   \<and> cells (fst (feed_run
        [Scroll (Some near_bottom), Scroll (Some near_bottom), Render, Run_Effects,
         Settle_More (Inr page_C), Render, Settle_More (Inr page_C)]
        (current feed_AB))) =
       \<lparr>entries = [entry_A, entry_B, entry_C, entry_C], loading = False, page = 2,
        hasMore = False, loadingMore = False\<rparr>
   \<and> snd (feed_run
        [Scroll (Some near_bottom), Scroll (Some near_bottom), Render, Run_Effects,
         Settle_More (Inr page_C), Render, Settle_More (Inr page_C)]
        (current feed_AB)) = [Get_Entries 2 20, Get_Entries 2 20]"
  by (simp add: feed_step_def handleScroll_def loadMore_def fetchEntries_begin_def
      loadMore_settle_appends capture_def current_def feed_AB_def page_C_def near_bottom_def
      Let_def)

text \<open>
  C2 at the same run. The first scroll event passes the guard, requests page 2 and sets
  the \<open>loadingMore\<close> cell. The second, fired before the listener is registered anew,
  invokes \<open>loadMore\<close> while the \<open>loadingMore\<close> cell is true, and is not a no-op:
  it sends the request for page 2 again.
\<close>

theorem stale_guard_sends_twice:
  "feed_step (Scroll (Some near_bottom)) (current feed_AB) =
     (\<lparr>cells = feed_AB\<lparr>page := 2, loadingMore := True\<rparr>, rendered = feed_AB,
       listener = capture feed_AB\<rparr>, [Get_Entries 2 20])
   \<and> loadingMore (cells
        \<lparr>cells = feed_AB\<lparr>page := 2, loadingMore := True\<rparr>, rendered = feed_AB,
         listener = capture feed_AB\<rparr>)
   \<and> snd (feed_step (Scroll (Some near_bottom))
        \<lparr>cells = feed_AB\<lparr>page := 2, loadingMore := True\<rparr>, rendered = feed_AB,
         listener = capture feed_AB\<rparr>) = [Get_Entries 2 20]
   \<and> snd (feed_run [Scroll (Some near_bottom), Scroll (Some near_bottom)] (current feed_AB)) =
       [Get_Entries 2 20, Get_Entries 2 20]"
  by (simp add: feed_step_def handleScroll_def loadMore_def fetchEntries_begin_def
      capture_def current_def feed_AB_def near_bottom_def Let_def)

lemma load_run_failed:
  "load_run (Inl err) s =
     (s\<lparr>loading := False, loadingMore := False\<rparr>,
      [Get_Entries 1 20, Console_Error ''Failed to fetch entries:'' err])"
  by (simp add: load_run_def load_begin_def load_settle_def fetchEntries_begin_def
      fetchEntries_settle_def fetchEntries_finally_def)

lemma loadMore_call:
  "loadMore k s =
     (if \<not> k_loadingMore k \<and> k_hasMore k
      then (if k_page k + 1 = 1
            then s\<lparr>page := k_page k + 1, loading := True\<rparr>
            else s\<lparr>page := k_page k + 1, loadingMore := True\<rparr>,
            [Get_Entries (k_page k + 1) 20])
      else (s, []))"
  by (simp add: loadMore_def fetchEntries_begin_def Let_def)

lemma loadMore_then_failed:
  "fst (loadMore_settle (Inl err) (fst (loadMore k s))) =
     (if \<not> k_loadingMore k \<and> k_hasMore k
      then s\<lparr>page := k_page k + 1, loading := False, loadingMore := False\<rparr>
      else s\<lparr>loading := False, loadingMore := False\<rparr>)"
  by (simp add: loadMore_call loadMore_settle_def fetchEntries_settle_failed)

text \<open>
  C3, as the claim states it, fails: the timeline holds no error state. After a first
  load that fails with HTTP status 500 the feed state is the very state a successful load
  of an empty page leaves, and the page renders the empty-list message, not a failure
  message. The rejection went to the console only.
\<close>

theorem failed_load_not_surfaced:
  "load_run (Inl (Thrown_Error (Error ''HTTP error! status: 500''))) initial_feed =
     (\<lparr>entries = [], loading = False, page = 1, hasMore = False, loadingMore = False\<rparr>,
      [Get_Entries 1 20,
       Console_Error ''Failed to fetch entries:''
         (Thrown_Error (Error ''HTTP error! status: 500''))])
   \<and> fst (load_run (Inl (Thrown_Error (Error ''HTTP error! status: 500''))) initial_feed) =
       fst (load_run (Inr \<lparr>pr_entries = [], pr_total = 0, pr_page = 1, pr_limit = 20,
                          has_more = False\<rparr>) initial_feed)
   \<and> timeline_render
         (fst (load_run (Inl (Thrown_Error (Error ''HTTP error! status: 500''))) initial_feed)) =
       \<lparr>grid = Empty_Message ''No observations yet. Start recording to see your activity here.'',
        loading_more_indicator = False, load_more_button = False\<rparr>"
  by (simp add: load_run_def load_begin_def load_settle_def fetchEntries_begin_def
      fetchEntries_settle_def fetchEntries_finally_def initial_feed_def timeline_render_def
      card_grid_def)

text \<open>
  C3, amended. A failed \<open>load()\<close> or \<open>loadMore()\<close> leaves \<open>entries\<close> (and
  \<open>hasMore\<close>) as they were and clears both loading flags; the resulting state is the
  same whatever was thrown, the rejection is written to the console, and the failed call
  sent its one request and no other. This holds of the failure whatever the cells hold
  when it is applied, and of the call whatever constants its closure holds.
\<close>

theorem failed_fetch_keeps_entries:
  "fetchEntries_settle b (Inl err) s' =
     (s'\<lparr>loading := False, loadingMore := False\<rparr>,
      [Console_Error ''Failed to fetch entries:'' err])
   \<and> entries (fst (load_run (Inl err) s)) = entries s
   \<and> entries (fst (loadMore_settle (Inl err) (fst (loadMore k s)))) = entries s
   \<and> hasMore (fst (load_run (Inl err) s)) = hasMore s
   \<and> hasMore (fst (loadMore_settle (Inl err) (fst (loadMore k s)))) = hasMore s
   \<and> fst (load_run (Inl err) s) = s\<lparr>loading := False, loadingMore := False\<rparr>
   \<and> fst (loadMore k s) =
       (if \<not> k_loadingMore k \<and> k_hasMore k
        then (if k_page k + 1 = 1
              then s\<lparr>page := k_page k + 1, loading := True\<rparr>
              else s\<lparr>page := k_page k + 1, loadingMore := True\<rparr>)
        else s)
   \<and> (if \<not> k_loadingMore k \<and> k_hasMore k
       then fst (loadMore_settle (Inl err) (fst (loadMore k s)))
       else fst (loadMore k s)) =
       (if \<not> k_loadingMore k \<and> k_hasMore k
        then s\<lparr>page := k_page k + 1, loading := False, loadingMore := False\<rparr>
        else s)
   \<and> snd (load_run (Inl err) s) =
       [Get_Entries 1 20, Console_Error ''Failed to fetch entries:'' err]
   \<and> snd (loadMore k s) @
       (if \<not> k_loadingMore k \<and> k_hasMore k
        then snd (loadMore_settle (Inl err) (fst (loadMore k s)))
        else []) =
       (if \<not> k_loadingMore k \<and> k_hasMore k
        then [Get_Entries (k_page k + 1) 20, Console_Error ''Failed to fetch entries:'' err]
        else [])"
  by (simp add: load_run_failed loadMore_then_failed fetchEntries_settle_failed
      loadMore_settle_def loadMore_call)







text \<open>
  The entries hook, unlike the timeline page, stores the failure of its load: \<open>error\<close>
  is set and \<open>entries\<close> is kept.
\<close>

lemma useEntries_fetch_failed:
  "useEntries_fetch options (Inl err) h =
     (h\<lparr>ue_loading := False,
        ue_error := Some (case err of
                            Thrown_Error e \<Rightarrow> e
                          | Thrown_Other \<Rightarrow> Error ''Failed to fetch entries'')\<rparr>,
      [Get_Entries_With options])"
  by (simp add: useEntries_fetch_def useEntries_fetch_begin_def useEntries_fetch_settle_def)

section \<open>Properties of search\<close>

lemma trim_blank: "trim ''   '' = []"
  by (simp add: trim_def is_white_space_def)

lemma trim_meeting: "trim ''meeting'' = ''meeting''"
  by (simp add: trim_def is_white_space_def)

lemma trim_standup: "trim ''standup'' = ''standup''"
  by (simp add: trim_def is_white_space_def)

lemma search_begin_blank:
  "trim q = [] \<Longrightarrow> search_begin q limit s = (s\<lparr>results := [], query := []\<rparr>, [])"
  by (simp add: search_begin_def)

lemma search_begin_query:
  "trim q \<noteq> [] \<Longrightarrow>
     search_begin q limit s =
       (s\<lparr>search_loading := True, search_error := None, query := q\<rparr>, [Get_Search q limit])"
  by (simp add: search_begin_def)

lemma search_settle_failed:
  "search_settle (Inl err) s =
     (s\<lparr>search_error := Some (case err of Thrown_Error e \<Rightarrow> e
                               | Thrown_Other \<Rightarrow> Error ''Search failed''),
        results := [], search_loading := False\<rparr>, [])"
  by (simp add: search_settle_def)

lemma search_settle_query:
  "query (fst (search_settle r s)) = query s" "snd (search_settle r s) = []"
  by (simp_all add: search_settle_def split: sum.splits)

lemma settled_run_query:
  "query (fst (search_run (map Settled rs) s)) = query s
   \<and> snd (search_run (map Settled rs) s) = []"
  by (induction rs arbitrary: s) (simp_all add: search_step_def split_beta search_settle_query)

lemma search_run_append:
  "search_run (es @ es') s =
     (fst (search_run es' (fst (search_run es s))),
      snd (search_run es s) @ snd (search_run es' (fst (search_run es s))))"
  by (induction es arbitrary: s) (simp_all add: split_beta)

lemma search_then_failed:
  assumes "trim q \<noteq> []"
  shows "search_run (Search q limit # map Settled rs @ [Settled (Inl err)]) s =
     ((fst (search_run (map Settled rs) (fst (search_begin q limit s))))
        \<lparr>search_error := Some (case err of Thrown_Error e \<Rightarrow> e
                               | Thrown_Other \<Rightarrow> Error ''Search failed''),
         results := [], search_loading := False\<rparr>,
      [Get_Search q limit])"
  using assms
  by (simp add: search_run_append search_step_def split_beta search_settle_failed
      settled_run_query search_begin_query)

text \<open>
  C4 at a state the hook reaches: after \<open>search("meeting")\<close> has failed, a blank
  \<open>search("   ")\<close> sends nothing and empties \<open>results\<close> and \<open>query\<close>, but the
  error of the failed search stays, where \<open>clear()\<close> resets it.
\<close>

theorem blank_search_keeps_error:
  "search_run
     [Search ''meeting'' 20, Settled (Inl (Thrown_Error (Error ''HTTP error! status: 500'')))]
     initial_search =
     (search_failed_meeting, [Get_Search ''meeting'' 20])
   \<and> search_begin ''   '' 20 search_failed_meeting =
       (\<lparr>results = [], search_loading = False,
         search_error = Some (Error ''HTTP error! status: 500''), query = []\<rparr>, [])
   \<and> search_run [Search ''   '' 20] search_failed_meeting =
       (\<lparr>results = [], search_loading = False,
         search_error = Some (Error ''HTTP error! status: 500''), query = []\<rparr>, [])
   \<and> clear search_failed_meeting =
       (\<lparr>results = [], search_loading = False, search_error = None, query = []\<rparr>, [])
   \<and> fst (search_run [Search ''   '' 20] search_failed_meeting) \<noteq>
       fst (clear search_failed_meeting)"
  by (simp add: search_step_def search_begin_query trim_meeting search_settle_failed
      search_begin_blank trim_blank clear_def search_failed_meeting_def initial_search_def)

text \<open>
  C5, as the claim states it, fails where searches overlap: \<open>search("meeting")\<close> is
  pending when \<open>search("standup")\<close> begins, and then the request for "meeting" fails.
  The results are emptied and the error is set, but \<open>query\<close> is "standup", not the
  query whose request failed.
\<close>

theorem overlapping_search_failure:
  "search_run
     [Search ''meeting'' 20, Search ''standup'' 20,
      Settled (Inl (Thrown_Error (Error ''HTTP error! status: 500'')))]
     initial_search =
     (\<lparr>results = [], search_loading = False,
       search_error = Some (Error ''HTTP error! status: 500''), query = ''standup''\<rparr>,
      [Get_Search ''meeting'' 20, Get_Search ''standup'' 20])
   \<and> query (fst (search_run
        [Search ''meeting'' 20, Search ''standup'' 20,
         Settled (Inl (Thrown_Error (Error ''HTTP error! status: 500'')))]
        initial_search)) \<noteq> ''meeting''"
  by (simp add: search_step_def search_begin_query trim_meeting trim_standup
      search_settle_failed initial_search_def)

text \<open>
  C5, amended. For a non-blank \<open>q\<close>, \<open>search(q)\<close> sets \<open>query\<close> to \<open>q\<close> and sends
  its one request. A failing request empties the results and sets the error, and leaves
  \<open>query\<close> as it stands when the failure is applied. So \<open>query\<close> is still \<open>q\<close>
  after the failure where no \<open>search\<close> or \<open>clear\<close> was called since this
  \<open>search(q)\<close> began, whatever other requests settled in between.
\<close>

theorem failed_search_keeps_query:
  assumes "trim q \<noteq> []"
  shows "query (fst (search_begin q limit s)) = q
       \<and> snd (search_begin q limit s) = [Get_Search q limit]
       \<and> results (fst (search_settle (Inl err) s')) = []
       \<and> search_error (fst (search_settle (Inl err) s')) \<noteq> None
       \<and> search_error (fst (search_settle (Inl err) s')) =
           Some (case err of Thrown_Error e \<Rightarrow> e | Thrown_Other \<Rightarrow> Error ''Search failed'')
       \<and> query (fst (search_settle (Inl err) s')) = query s'
       \<and> results (fst (search_run
             (Search q limit # map Settled rs @ [Settled (Inl err)]) s)) = []
       \<and> search_error (fst (search_run
             (Search q limit # map Settled rs @ [Settled (Inl err)]) s)) =
           Some (case err of Thrown_Error e \<Rightarrow> e | Thrown_Other \<Rightarrow> Error ''Search failed'')
       \<and> query (fst (search_run
             (Search q limit # map Settled rs @ [Settled (Inl err)]) s)) = q
       \<and> snd (search_run
             (Search q limit # map Settled rs @ [Settled (Inl err)]) s) = [Get_Search q limit]"
proof -
  have b: "query (fst (search_begin q limit s)) = q"
    "snd (search_begin q limit s) = [Get_Search q limit]"
    using assms by (simp_all add: search_begin_query)
  have "query (fst (search_run (map Settled rs) (fst (search_begin q limit s)))) = q"
    using b(1) by (simp add: settled_run_query)
  then have r: "query (fst (search_run
      (Search q limit # map Settled rs @ [Settled (Inl err)]) s)) = q"
    using assms by (simp add: search_then_failed del: search_run.simps)
  show ?thesis
    using b r assms
    by (simp add: search_settle_failed search_then_failed del: search_run.simps)
qed

theorem failed_search_keeps_query_witness:
  "trim ''meeting'' \<noteq> []
   \<and> search_run
        [Search ''meeting'' 20,
         Settled (Inr \<lparr>sr_query = ''meeting'', sr_results = [result_X], sr_total = 1\<rparr>)]
        initial_search =
       (\<lparr>results = [result_X], search_loading = False, search_error = None,
         query = ''meeting''\<rparr>, [Get_Search ''meeting'' 20])
   \<and> results (fst (search_run [Search ''meeting'' 20, Settled (Inl Thrown_Other)]
        \<lparr>results = [result_X], search_loading = False, search_error = None,
         query = ''meeting''\<rparr>)) = []
   \<and> search_error (fst (search_run [Search ''meeting'' 20, Settled (Inl Thrown_Other)]
        \<lparr>results = [result_X], search_loading = False, search_error = None,
         query = ''meeting''\<rparr>)) = Some (Error ''Search failed'')
   \<and> query (fst (search_run [Search ''meeting'' 20, Settled (Inl Thrown_Other)]
        \<lparr>results = [result_X], search_loading = False, search_error = None,
         query = ''meeting''\<rparr>)) = ''meeting''
   \<and> snd (search_run [Search ''meeting'' 20, Settled (Inl Thrown_Other)]
        \<lparr>results = [result_X], search_loading = False, search_error = None,
         query = ''meeting''\<rparr>) = [Get_Search ''meeting'' 20]"
proof -
  have g: "trim ''meeting'' \<noteq> []"
    by (simp add: trim_meeting)
  have ok: "search_run
        [Search ''meeting'' 20,
         Settled (Inr \<lparr>sr_query = ''meeting'', sr_results = [result_X], sr_total = 1\<rparr>)]
        initial_search =
       (\<lparr>results = [result_X], search_loading = False, search_error = None,
         query = ''meeting''\<rparr>, [Get_Search ''meeting'' 20])"
    by (simp add: search_step_def search_begin_query trim_meeting search_settle_def
        initial_search_def)
  show ?thesis
    using g ok failed_search_keeps_query [OF g, of 20
        "\<lparr>results = [result_X], search_loading = False, search_error = None,
         query = ''meeting''\<rparr>" Thrown_Other initial_search "[]"]
    by simp
qed

section \<open>Properties of the recorder status\<close>

text \<open>
  C6. The header's bucket is a function of the status with the precedence recording,
  then paused, else inactive: active exactly when \<open>recording\<close> is true, paused exactly
  when \<open>recording\<close> is false and \<open>paused\<close> is true, inactive exactly when both are
  false, and inactive while no status has been fetched.
\<close>

theorem status_bucket_precedence:
  "status_bucket None = Inactive
   \<and> (status_bucket (Some d) = Active) = recording d
   \<and> (status_bucket (Some d) = Paused) = (\<not> recording d \<and> paused d)
   \<and> (status_bucket (Some d) = Inactive) = (\<not> recording d \<and> \<not> paused d)"
  by (simp add: status_bucket_def)

text \<open>
  C7. A \<open>fetchStatus()\<close> whose request fails keeps the status it held (or none), sends
  its one request and writes nothing else: the resulting state is the same whatever was
  thrown, and the header renders as before.
\<close>

theorem failed_status_fetch_swallowed:
  "fetchStatus (Inl err) s = (s\<lparr>status_loading := False\<rparr>, [Get_Status])
   \<and> status (fst (fetchStatus (Inl err) s)) = status s
   \<and> header_render (fst (fetchStatus (Inl err) s)) = header_render s"
  by (simp add: fetchStatus_def fetchStatus_begin_def fetchStatus_settle_def header_render_def)

section \<open>Properties of the detail modal\<close>

lemma select_closed:
  "modal_mounted w \<Longrightarrow> selectedEntry w = None \<Longrightarrow>
     select e w =
       w\<lparr>selectedEntry := Some e,
         doc := \<lparr>body_overflow = ''hidden'',
                 keydown_listeners = keydown_listeners (doc w) + 1\<rparr>\<rparr>"
  by (simp add: select_def setSelectedEntry_def modal_effect_def modal_cleanup_def)

lemma dismiss_open:
  "modal_mounted w \<Longrightarrow> selectedEntry w \<noteq> None \<Longrightarrow>
     doc (dismiss p w) =
       \<lparr>body_overflow = ''unset'', keydown_listeners = keydown_listeners (doc w) - 1\<rparr>"
  by (cases p)
    (auto simp: dismiss_def onClose_def handleEscape_def unmount_def setSelectedEntry_def
      modal_effect_def modal_cleanup_def)

lemma select_then_dismiss_doc:
  assumes "modal_mounted w" and "selectedEntry w = None"
  shows "doc (dismiss p (select e w)) =
           \<lparr>body_overflow = ''unset'', keydown_listeners = keydown_listeners (doc w)\<rparr>"
proof -
  let ?w1 = "select e w"
  have w1: "?w1 = w\<lparr>selectedEntry := Some e,
      doc := \<lparr>body_overflow = ''hidden'', keydown_listeners = keydown_listeners (doc w) + 1\<rparr>\<rparr>"
    using assms by (rule select_closed)
  have "modal_mounted ?w1" and "selectedEntry ?w1 \<noteq> None"
    using assms(1) by (simp_all add: w1)
  then have "doc (dismiss p ?w1) =
      \<lparr>body_overflow = ''unset'', keydown_listeners = keydown_listeners (doc ?w1) - 1\<rparr>"
    by (rule dismiss_open)
  then show ?thesis
    by (simp add: w1)
qed

text \<open>
  C8, as the claim states it, fails: the cleanup writes \<open>unset\<close> and restores nothing.
  Where scrolling was already suppressed before \<open>select\<close>, it is not afterwards; and
  from a fresh document, whose inline style is empty, the style ends as \<open>unset\<close>.
\<close>

theorem select_dismiss_not_restored:
  "doc (dismiss Close_Button (select entry_A world_suppressed)) =
     \<lparr>body_overflow = ''unset'', keydown_listeners = 0\<rparr>
   \<and> doc world_suppressed = \<lparr>body_overflow = ''hidden'', keydown_listeners = 0\<rparr>
   \<and> scroll_suppressed (doc world_suppressed)
   \<and> \<not> scroll_suppressed (doc (dismiss Close_Button (select entry_A world_suppressed)))
   \<and> body_overflow (doc world_fresh) = []
   \<and> body_overflow (doc (dismiss Escape_Key (select entry_A world_fresh))) = ''unset''"
  by (simp add: dismiss_def onClose_def handleEscape_def select_def setSelectedEntry_def
      modal_effect_def modal_cleanup_def scroll_suppressed_def world_suppressed_def
      world_fresh_def)

text \<open>
  C8, amended. From a mounted, closed modal, \<open>select(e)\<close> suppresses background
  scrolling and \<open>dismiss()\<close> by any exit path (close button, backdrop click, escape key,
  teardown) releases it: the body's overflow style ends as \<open>unset\<close> and the number of
  keydown listeners is the one before \<open>select\<close>. Whether scrolling is suppressed is
  as before \<open>select\<close> exactly where it was not suppressed then, and the document is
  as before exactly where its overflow style was \<open>unset\<close> already.
\<close>

theorem select_dismiss_releases:
  assumes "modal_mounted w" and "selectedEntry w = None"
  shows "scroll_suppressed (doc (select e w))
       \<and> body_overflow (doc (dismiss p (select e w))) = ''unset''
       \<and> \<not> scroll_suppressed (doc (dismiss p (select e w)))
       \<and> keydown_listeners (doc (dismiss p (select e w))) = keydown_listeners (doc w)
       \<and> (doc (dismiss p (select e w)) = doc w) = (body_overflow (doc w) = ''unset'')
       \<and> (scroll_suppressed (doc (dismiss p (select e w))) = scroll_suppressed (doc w))
           = (\<not> scroll_suppressed (doc w))"
proof -
  have d: "doc (dismiss p (select e w)) =
      \<lparr>body_overflow = ''unset'', keydown_listeners = keydown_listeners (doc w)\<rparr>"
    using assms by (rule select_then_dismiss_doc)
  have s: "scroll_suppressed (doc (select e w))"
    using assms by (simp add: select_closed scroll_suppressed_def)
  have e: "(\<lparr>body_overflow = ''unset'', keydown_listeners = keydown_listeners (doc w)\<rparr> = doc w)
      = (body_overflow (doc w) = ''unset'')"
    by (cases "doc w") auto
  show ?thesis
    using s e by (simp add: d scroll_suppressed_def)
qed

theorem select_dismiss_releases_witness:
  "modal_mounted world_suppressed \<and> selectedEntry world_suppressed = None
   \<and> scroll_suppressed (doc (select entry_A world_suppressed))
   \<and> body_overflow (doc (dismiss Teardown (select entry_A world_suppressed))) = ''unset''
   \<and> \<not> scroll_suppressed (doc (dismiss Teardown (select entry_A world_suppressed)))
   \<and> keydown_listeners (doc (dismiss Teardown (select entry_A world_suppressed))) = 0
   \<and> doc (dismiss Teardown (select entry_A world_suppressed)) \<noteq> doc world_suppressed"
proof -
  have g: "modal_mounted world_suppressed" "selectedEntry world_suppressed = None"
    by (simp_all add: world_suppressed_def)
  have d: "doc world_suppressed = \<lparr>body_overflow = ''hidden'', keydown_listeners = 0\<rparr>"
    by (simp add: world_suppressed_def)
  show ?thesis
    using g select_dismiss_releases [OF g, of entry_A Teardown]
    by (simp add: d)
qed

section \<open>Properties of the chart denominators\<close>

lemma app_maxCount_nonzero: "app_maxCount apps \<noteq> 0"
  by (simp add: app_maxCount_def split: list.splits)

lemma hourly_maxCount_Max: "hourly_maxCount data = Max (insert 1 (set (map hcount data)))"
proof (induction data)
  case Nil
  then show ?case by (simp add: hourly_maxCount_def)
next
  case (Cons d ds)
  have "Max (insert 1 (set (map hcount (d # ds)))) =
      Max (insert (hcount d) (insert 1 (set (map hcount ds))))"
    by (simp add: insert_commute)
  also have "\<dots> = max (hcount d) (Max (insert 1 (set (map hcount ds))))"
    by (rule Max_insert) simp_all
  finally show ?case
    using Cons.IH by (simp add: hourly_maxCount_def)
qed

lemma app_maxCount_sorted:
  assumes "sorted_wrt (\<ge>) (map count apps)" and "\<forall>a \<in> set apps. 0 \<le> count a"
  shows "app_maxCount apps = Max (insert 1 (set (map count apps)))"
proof (cases apps)
  case Nil
  then show ?thesis by (simp add: app_maxCount_def)
next
  case (Cons a as)
  have le: "\<forall>c \<in> set (map count apps). c \<le> count a"
    using assms(1) Cons by auto
  have nn: "0 \<le> count a"
    using assms(2) Cons by simp
  show ?thesis
  proof (cases "count a = 0")
    case True
    have "Max (insert 1 (set (map count apps))) = 1"
      by (rule Max_eqI) (use le True in auto)
    then show ?thesis
      using Cons True by (simp add: app_maxCount_def)
  next
    case False
    then have "1 \<le> count a"
      using nn by simp
    then have "Max (insert 1 (set (map count apps))) = count a"
      using le Cons by (intro Max_eqI) auto
    then show ?thesis
      using Cons False by (simp add: app_maxCount_def)
  qed
qed

text \<open>
  C9, as the claim states it, fails for the per-app bars: their denominator is the first
  app's count, not the maximum. With the apps listed as counts 1 and 5 the denominator
  is 1 where the maximum is 5, and the second bar is 500 percent wide.
\<close>

theorem app_denominator_is_first_count:
  "app_maxCount apps_unsorted = 1
   \<and> Max (set (map count apps_unsorted)) = 5
   \<and> appBar_percentage 5 (app_maxCount apps_unsorted) = 500"
  by (simp add: app_maxCount_def apps_unsorted_def appBar_percentage_def)

text \<open>
  C9, amended. For a payload that lists its apps by non-increasing, non-negative count,
  the per-app denominator (the first app's count, or 1 where there is none or it is 0)
  is the maximum count over all apps with a floor of 1. For every payload the hourly
  denominator is the maximum hourly count with a floor of 1. Neither is 0.
\<close>

theorem chart_denominators:
  assumes "sorted_wrt (\<ge>) (map count apps)" and "\<forall>a \<in> set apps. 0 \<le> count a"
  shows "app_maxCount apps = Max (insert 1 (set (map count apps)))
       \<and> 1 \<le> app_maxCount apps
       \<and> hourly_maxCount data = Max (insert 1 (set (map hcount data)))
       \<and> 1 \<le> hourly_maxCount data"
proof -
  have a: "app_maxCount apps = Max (insert 1 (set (map count apps)))"
    using assms by (rule app_maxCount_sorted)
  have h: "hourly_maxCount data = Max (insert 1 (set (map hcount data)))"
    by (rule hourly_maxCount_Max)
  have "1 \<le> Max (insert 1 (set (map count apps)))"
    and "1 \<le> Max (insert 1 (set (map hcount data)))"
    by (rule Max_ge; simp)+
  then show ?thesis
    using a h by simp
qed

theorem chart_denominators_witness:
  "sorted_wrt (\<ge>) (map count apps_sorted) \<and> list_all (\<lambda>a. 0 \<le> count a) apps_sorted
   \<and> app_maxCount apps_sorted = 5
   \<and> Max (insert 1 (set (map count apps_sorted))) = 5
   \<and> hourly_maxCount hours_sample = 7
   \<and> Max (insert 1 (set (map hcount hours_sample))) = 7"
proof -
  have g: "sorted_wrt (\<ge>) (map count apps_sorted)" "\<forall>a \<in> set apps_sorted. 0 \<le> count a"
    by (simp_all add: apps_sorted_def)
  have v: "app_maxCount apps_sorted = 5" "hourly_maxCount hours_sample = 7"
    by (simp_all add: app_maxCount_def apps_sorted_def hourly_maxCount_def hours_sample_def)
  show ?thesis
    using g v chart_denominators [OF g, of hours_sample]
    by (simp add: list_all_iff)
qed

end
